theory Spec2Isabelle
  imports Main "HOL-Library.Char_ord" "HOL-Library.List_Lexorder"
begin

section \<open>Kubernetes objects seen by the NodeSet event handlers\<close>

text \<open>
  The handlers of \<^verbatim>\<open>nodeset_eventhandler.go\<close> read only a few fields of the
  Kubernetes objects they receive. Each object is a record of those fields. A Go pointer that
  may be nil is an \<open>option\<close>; a Go map that may be nil is an optional partial function, so
  that \<^verbatim>\<open>reflect.DeepEqual\<close> on two label maps is HOL equality (a nil map and an
  empty map differ, as they do in Go).
\<close>

datatype error = NotFound | ApiError string | Panic string

record NamespacedName =
  Namespace :: string
  Name :: string

type_synonym Request = NamespacedName

type_synonym workqueue = "Request list"

record OwnerReference =
  refAPIVersion :: string
  refKind :: string
  refName :: string
  refUID :: string
  refController :: "bool option"
  refBlockOwnerDeletion :: "bool option"

record Pod =
  podNamespace :: string
  podName :: string
  podResourceVersion :: string
  podLabels :: "(string \<rightharpoonup> string) option"
  podDeletionTimestamp :: "nat option"
  podOwnerReferences :: "OwnerReference list"

record LabelSelectorRequirement =
  reqKey :: string
  reqOperator :: string
  reqValues :: "string list"

record LabelSelector =
  MatchLabels :: "(string \<times> string) list"
  MatchExpressions :: "LabelSelectorRequirement list"

record NodeSet =
  nsNamespace :: string
  nsName :: string
  nsUID :: string
  nsSelector :: "LabelSelector option"

record 'c Node =
  nodeName :: string
  nodeResourceVersion :: string
  nodeConditions :: "'c list"
  nodeOther :: string

datatype 'c Object = PodObject Pod | NodeObject "'c Node" | UnknownObject

text \<open>
  \<^verbatim>\<open>client.Reader\<close>: the informer cache the handlers read from. \<open>getPod\<close> and
  \<open>getNodeSet\<close> are \<^verbatim>\<open>Get\<close> at the two object types the handlers ask for,
  \<open>listNodeSetsIn\<close> is \<^verbatim>\<open>List\<close> with \<^verbatim>\<open>client.InNamespace\<close>, and
  \<open>listNodeSets\<close> is \<^verbatim>\<open>List\<close> over all namespaces. Each may fail.
\<close>

record Reader =
  getPod :: "NamespacedName \<Rightarrow> error + Pod"
  getNodeSet :: "NamespacedName \<Rightarrow> error + NodeSet"
  listNodeSetsIn :: "string \<Rightarrow> error + NodeSet list"
  listNodeSets :: "error + NodeSet list"

text \<open>
  The label-selector functions of \<^verbatim>\<open>k8s.io/apimachinery\<close> that
  \<^verbatim>\<open>getPodNodeSets\<close> calls: \<^verbatim>\<open>metav1.LabelSelectorAsSelector\<close>,
  \<^verbatim>\<open>Selector.Empty\<close> and \<^verbatim>\<open>Selector.Matches\<close>. They belong to a library
  outside the repository, so the handlers take them as a parameter; \<open>'s\<close> is the library's
  \<^verbatim>\<open>labels.Selector\<close>.
\<close>

record 's labels_api =
  LabelSelectorAsSelector :: "LabelSelector option \<Rightarrow> error + 's"
  Empty :: "'s \<Rightarrow> bool"
  Matches :: "'s \<Rightarrow> (string \<rightharpoonup> string) \<Rightarrow> bool"

text \<open>\<^verbatim>\<open>labels.Set(pod.Labels)\<close>: a nil map reads as the empty label set.\<close>

definition labelsSet :: "(string \<rightharpoonup> string) option \<Rightarrow> (string \<rightharpoonup> string)" where
  "labelsSet m = (case m of None \<Rightarrow> Map.empty | Some l \<Rightarrow> l)"

subsection \<open>The API group and the controller kind\<close>

record GroupVersion =
  Group :: string
  Version :: string

record GroupVersionKind =
  gvkGroup :: string
  gvkVersion :: string
  gvkKind :: string

text \<open>\<^verbatim>\<open>schema.GroupVersion.String\<close>: the group is left out when it is empty.\<close>

definition GroupVersion_String :: "GroupVersion \<Rightarrow> string" where
  "GroupVersion_String gv =
     (if length (Group gv) > 0 then Group gv @ ''/'' @ Version gv else Version gv)"

definition GroupVersion :: GroupVersion where
  "GroupVersion = \<lparr>Group = ''slinky.slurm.net'', Version = ''v1alpha1''\<rparr>"

definition WithKind :: "GroupVersion \<Rightarrow> string \<Rightarrow> GroupVersionKind" where
  "WithKind gv k = \<lparr>gvkGroup = Group gv, gvkVersion = Version gv, gvkKind = k\<rparr>"

definition gvk_GroupVersion :: "GroupVersionKind \<Rightarrow> GroupVersion" where
  "gvk_GroupVersion k = \<lparr>Group = gvkGroup k, Version = gvkVersion k\<rparr>"

text \<open>
  Modelled from the spec: the declaration of \<^verbatim>\<open>controllerKind\<close> is not among the
  source files. The spec (External interfaces) gives the API group \<^verbatim>\<open>slinky.slurm.net\<close>,
  version \<^verbatim>\<open>v1alpha1\<close> and kind \<^verbatim>\<open>NodeSet\<close>; the group and version are those of
  \<^verbatim>\<open>GroupVersion\<close> above.
\<close>

definition controllerKind :: GroupVersionKind where
  "controllerKind = WithKind GroupVersion ''NodeSet''"

subsection \<open>Helpers of the pod event handler\<close>

text \<open>
  \<^verbatim>\<open>metav1.GetControllerOf\<close>: the first owner reference whose \<^verbatim>\<open>Controller\<close>
  pointer is set and true.
\<close>

definition GetControllerOf :: "Pod \<Rightarrow> OwnerReference option" where
  "GetControllerOf pod = find (\<lambda>r. refController r = Some True) (podOwnerReferences pod)"

text \<open>
  Modelled from the spec: \<^verbatim>\<open>utils.IsTerminating\<close> is not among the source files. In
  the spec an object is being deleted when its deletion timestamp is set, and
  \<^verbatim>\<open>podEventHandler.Update\<close> tests \<^verbatim>\<open>curPod.DeletionTimestamp != nil\<close> for the
  same purpose.
\<close>

definition IsTerminating :: "Pod \<Rightarrow> bool" where
  "IsTerminating pod = (podDeletionTimestamp pod \<noteq> None)"

definition enqueueNodeSet :: "workqueue \<Rightarrow> NodeSet \<Rightarrow> workqueue" where
  "enqueueNodeSet q nodeset = q @ [\<lparr>Namespace = nsNamespace nodeset, Name = nsName nodeset\<rparr>]"

definition resolveControllerRef :: "Reader \<Rightarrow> string \<Rightarrow> OwnerReference \<Rightarrow> NodeSet option" where
  "resolveControllerRef e namespace controllerRef =
     (if refKind controllerRef \<noteq> gvkKind controllerKind
         \<or> refAPIVersion controllerRef \<noteq> GroupVersion_String (gvk_GroupVersion controllerKind)
      then None
      else case getNodeSet e \<lparr>Namespace = namespace, Name = refName controllerRef\<rparr> of
             Inl err \<Rightarrow> None
           | Inr nodeset \<Rightarrow>
               if nsUID nodeset \<noteq> refUID controllerRef then None else Some nodeset)"

text \<open>
  \<^verbatim>\<open>getPodNodeSets\<close>: the loop over \<^verbatim>\<open>nodesetList.Items\<close> appends a NodeSet
  unless its selector fails to convert, is empty, or does not match the pod's labels. A failed
  \<^verbatim>\<open>List\<close> returns nil, the empty slice.
\<close>

definition selectsPod :: "'s labels_api \<Rightarrow> Pod \<Rightarrow> NodeSet \<Rightarrow> bool" where
  "selectsPod L pod nodeset =
     (case LabelSelectorAsSelector L (nsSelector nodeset) of
        Inl err \<Rightarrow> False
      | Inr selector \<Rightarrow>
          if Empty L selector \<or> \<not> Matches L selector (labelsSet (podLabels pod))
          then False else True)"

fun matchLoop :: "'s labels_api \<Rightarrow> Pod \<Rightarrow> NodeSet list \<Rightarrow> NodeSet list \<Rightarrow> NodeSet list" where
  "matchLoop L pod nsMatched [] = nsMatched"
| "matchLoop L pod nsMatched (nodeset # items) =
     (if selectsPod L pod nodeset
      then matchLoop L pod (nsMatched @ [nodeset]) items
      else matchLoop L pod nsMatched items)"

definition getPodNodeSets :: "'s labels_api \<Rightarrow> Reader \<Rightarrow> Pod \<Rightarrow> NodeSet list" where
  "getPodNodeSets L e pod =
     (case listNodeSetsIn e (podNamespace pod) of
        Inl err \<Rightarrow> []
      | Inr items \<Rightarrow> matchLoop L pod [] items)"

subsection \<open>The pod event handler\<close>

text \<open>
  Each handler takes the work queue and returns it with the requests it added, in the order
  of the \<^verbatim>\<open>q.Add\<close> calls. \<open>isDeleted\<close> only selects a log line.
\<close>

definition deletePod :: "Reader \<Rightarrow> Pod \<Rightarrow> workqueue \<Rightarrow> bool \<Rightarrow> workqueue" where
  "deletePod e pod q isDeleted =
     (case GetControllerOf pod of
        None \<Rightarrow> q
      | Some controllerRef \<Rightarrow>
          (case resolveControllerRef e (podNamespace pod) controllerRef of
             None \<Rightarrow> q
           | Some nodeset \<Rightarrow> enqueueNodeSet q nodeset))"

text \<open>\<^verbatim>\<open>Delete\<close> checks its type assertion and returns when the object is no pod.\<close>

definition podEventHandler_Delete :: "Reader \<Rightarrow> 'c Object \<Rightarrow> workqueue \<Rightarrow> workqueue" where
  "podEventHandler_Delete e obj q = (case obj of PodObject pod \<Rightarrow> deletePod e pod q True | _ \<Rightarrow> q)"

text \<open>
  \<^verbatim>\<open>Create\<close>, \<^verbatim>\<open>Update\<close> and \<^verbatim>\<open>Generic\<close> assert the type without a check: an
  object that is no pod panics, which is the result \<open>Inl (Panic _)\<close>.
\<close>

definition podEventHandler_Create :: "'s labels_api \<Rightarrow> Reader \<Rightarrow> 'c Object \<Rightarrow> workqueue \<Rightarrow> error + workqueue" where
  "podEventHandler_Create L e obj q =
     (case obj of
        PodObject pod \<Rightarrow>
          if IsTerminating pod then Inr (podEventHandler_Delete e obj q)
          else (case GetControllerOf pod of
                  Some controllerRef \<Rightarrow>
                    (case resolveControllerRef e (podNamespace pod) controllerRef of
                       None \<Rightarrow> Inr q
                     | Some nodeset \<Rightarrow> Inr (enqueueNodeSet q nodeset))
                | None \<Rightarrow>
                    (let nodesetList = getPodNodeSets L e pod
                     in if length nodesetList = 0 then Inr q
                        else Inr (foldl enqueueNodeSet q nodesetList)))
      | _ \<Rightarrow> Inl (Panic ''interface conversion''))"

definition podEventHandler_Update ::
  "'s labels_api \<Rightarrow> Reader \<Rightarrow> 'c Object \<Rightarrow> 'c Object \<Rightarrow> workqueue \<Rightarrow> error + workqueue" where
  "podEventHandler_Update L e objOld objNew q =
     (case objOld of
        PodObject oldPod \<Rightarrow>
          (case objNew of
             PodObject curPod \<Rightarrow>
               if podResourceVersion curPod = podResourceVersion oldPod then Inr q
               else
                 (let curControllerRef = GetControllerOf curPod;
                      oldControllerRef = GetControllerOf oldPod;
                      controllerRefChanged = (curControllerRef \<noteq> oldControllerRef);
                      q1 = (case oldControllerRef of
                              None \<Rightarrow> q
                            | Some oldRef \<Rightarrow>
                                if controllerRefChanged
                                then (case resolveControllerRef e (podNamespace oldPod) oldRef of
                                        Some nodeset \<Rightarrow> enqueueNodeSet q nodeset
                                      | None \<Rightarrow> q)
                                else q)
                  in if podDeletionTimestamp curPod \<noteq> None
                     then Inr (deletePod e curPod q1 False)
                     else (case curControllerRef of
                             Some curRef \<Rightarrow>
                               (case resolveControllerRef e (podNamespace curPod) curRef of
                                  None \<Rightarrow> Inr q1
                                | Some nodeset \<Rightarrow> Inr (enqueueNodeSet q1 nodeset))
                           | None \<Rightarrow>
                               (let nodesetList = getPodNodeSets L e curPod
                                in if length nodesetList = 0 then Inr q1
                                   else (let labelChanged = (podLabels curPod \<noteq> podLabels oldPod)
                                         in if labelChanged \<or> controllerRefChanged
                                            then Inr (foldl enqueueNodeSet q1 nodesetList)
                                            else Inr q1))))
           | _ \<Rightarrow> Inl (Panic ''interface conversion''))
      | _ \<Rightarrow> Inl (Panic ''interface conversion''))"



subsection \<open>The node event handler\<close>

text \<open>
  \<^verbatim>\<open>nodeInSameCondition\<close> and \<^verbatim>\<open>nodeShouldRunNodeSetPod\<close> are not among the
  source files; both are parameters. The second returns the pair
  \<open>(shouldRun, shouldContinueRunning)\<close>. \<^verbatim>\<open>apiequality.Semantic.DeepEqual\<close> on two
  nodes is equality of the records: \<open>nodeOther\<close> stands for every field the handler does not
  touch.
\<close>

definition shouldIgnoreNodeUpdate ::
  "('c list \<Rightarrow> 'c list \<Rightarrow> bool) \<Rightarrow> 'c Node \<Rightarrow> 'c Node \<Rightarrow> bool" where
  "shouldIgnoreNodeUpdate nodeInSameCondition oldNode curNode =
     (if \<not> nodeInSameCondition (nodeConditions oldNode) (nodeConditions curNode) then False
      else (let oldNode1 = oldNode\<lparr>nodeResourceVersion := nodeResourceVersion curNode\<rparr>;
                oldNode2 = oldNode1\<lparr>nodeConditions := nodeConditions curNode\<rparr>
            in oldNode2 = curNode))"

fun nodeCreateLoop ::
  "('c Node \<Rightarrow> NodeSet \<Rightarrow> bool \<times> bool) \<Rightarrow> 'c Node \<Rightarrow> workqueue \<Rightarrow> NodeSet list \<Rightarrow> workqueue" where
  "nodeCreateLoop nodeShouldRunNodeSetPod node q [] = q"
| "nodeCreateLoop nodeShouldRunNodeSetPod node q (nodeset # items) =
     (if fst (nodeShouldRunNodeSetPod node nodeset)
      then nodeCreateLoop nodeShouldRunNodeSetPod node
             (q @ [\<lparr>Namespace = nsNamespace nodeset, Name = nsName nodeset\<rparr>]) items
      else nodeCreateLoop nodeShouldRunNodeSetPod node q items)"

definition nodeEventHandler_Create ::
  "('c Node \<Rightarrow> NodeSet \<Rightarrow> bool \<times> bool) \<Rightarrow> Reader \<Rightarrow> 'c Object \<Rightarrow> workqueue
     \<Rightarrow> error + workqueue" where
  "nodeEventHandler_Create nodeShouldRunNodeSetPod e obj q =
     (case listNodeSets e of
        Inl err \<Rightarrow> Inr q
      | Inr items \<Rightarrow>
          (case obj of
             NodeObject node \<Rightarrow> Inr (nodeCreateLoop nodeShouldRunNodeSetPod node q items)
           | _ \<Rightarrow> Inl (Panic ''interface conversion'')))"

text \<open>The body of the loop of \<^verbatim>\<open>nodeEventHandler.Update\<close>, for one NodeSet.\<close>

definition nodeUpdateStep ::
  "('c Node \<Rightarrow> NodeSet \<Rightarrow> bool \<times> bool) \<Rightarrow> 'c Node \<Rightarrow> 'c Node \<Rightarrow> workqueue \<Rightarrow> NodeSet
     \<Rightarrow> workqueue" where
  "nodeUpdateStep nodeShouldRunNodeSetPod oldNode curNode q nodeset =
     (case nodeShouldRunNodeSetPod oldNode nodeset of
        (oldShouldRun, oldShouldContinueRunning) \<Rightarrow>
          (case nodeShouldRunNodeSetPod curNode nodeset of
             (currentShouldRun, currentShouldContinueRunning) \<Rightarrow>
               if (oldShouldRun \<noteq> currentShouldRun)
                  \<or> (oldShouldContinueRunning \<noteq> currentShouldContinueRunning)
               then q @ [\<lparr>Namespace = nsNamespace nodeset, Name = nsName nodeset\<rparr>]
               else q))"

definition nodeEventHandler_Update ::
  "('c list \<Rightarrow> 'c list \<Rightarrow> bool) \<Rightarrow> ('c Node \<Rightarrow> NodeSet \<Rightarrow> bool \<times> bool) \<Rightarrow> Reader
     \<Rightarrow> 'c Object \<Rightarrow> 'c Object \<Rightarrow> workqueue \<Rightarrow> error + workqueue" where
  "nodeEventHandler_Update nodeInSameCondition nodeShouldRunNodeSetPod e objOld objNew q =
     (case objOld of
        NodeObject oldNode \<Rightarrow>
          (case objNew of
             NodeObject curNode \<Rightarrow>
               if shouldIgnoreNodeUpdate nodeInSameCondition oldNode curNode then Inr q
               else (case listNodeSets e of
                       Inl err \<Rightarrow> Inr q
                     | Inr items \<Rightarrow>
                         Inr (foldl (nodeUpdateStep nodeShouldRunNodeSetPod oldNode curNode)
                                q items))
           | _ \<Rightarrow> Inl (Panic ''interface conversion''))
      | _ \<Rightarrow> Inl (Panic ''interface conversion''))"

definition nodeEventHandler_Delete :: "'c Object \<Rightarrow> workqueue \<Rightarrow> workqueue" where
  "nodeEventHandler_Delete obj q = q"

definition nodeEventHandler_Generic :: "'c Object \<Rightarrow> workqueue \<Rightarrow> workqueue" where
  "nodeEventHandler_Generic obj q = q"

section \<open>Slurm nodes\<close>

text \<open>
  The Slurm API types come from the client library. A node state and a requested state are
  both strings (\<^verbatim>\<open>V0041NodeState\<close>, \<^verbatim>\<open>V0041UpdateNodeMsgState\<close>), and the
  conversion between them keeps the string.
\<close>

type_synonym V0041NodeState = string

type_synonym V0041UpdateNodeMsgState = string

definition V0041NodeStateDRAIN :: V0041NodeState where
  "V0041NodeStateDRAIN = ''DRAIN''"

definition V0041NodeStateALLOCATED :: V0041NodeState where
  "V0041NodeStateALLOCATED = ''ALLOCATED''"

definition V0041NodeStateMIXED :: V0041NodeState where
  "V0041NodeStateMIXED = ''MIXED''"

definition V0041NodeStateIDLE :: V0041NodeState where
  "V0041NodeStateIDLE = ''IDLE''"

definition V0041UpdateNodeMsgStateUNDRAIN :: V0041UpdateNodeMsgState where
  "V0041UpdateNodeMsgStateUNDRAIN = ''UNDRAIN''"

definition V0041UpdateNodeMsgStateDRAIN :: V0041UpdateNodeMsgState where
  "V0041UpdateNodeMsgStateDRAIN = ''DRAIN''"

record V0041Node =
  slurmName :: "string option"
  slurmState :: "V0041NodeState list option"
  slurmComment :: "string option"
  slurmReason :: "string option"

record V0041UpdateNodeMsg =
  msgState :: "V0041UpdateNodeMsgState list option"
  msgComment :: "string option"
  msgReason :: "string option"

datatype SlurmObject = V0041NodeObject V0041Node | OtherSlurmObject

datatype UpdateRequest = UpdateNodeMsg V0041UpdateNodeMsg | OtherRequest

text \<open>\<^verbatim>\<open>ptr.Deref(p, []T{})\<close> and \<^verbatim>\<open>GetStateAsSet\<close>.\<close>

definition Deref :: "'a list option \<Rightarrow> 'a list" where
  "Deref p = (case p of None \<Rightarrow> [] | Some xs \<Rightarrow> xs)"

definition GetStateAsSet :: "V0041Node \<Rightarrow> V0041NodeState set" where
  "GetStateAsSet node = set (Deref (slurmState node))"

subsection \<open>The update function of the fake Slurm client\<close>

text \<open>
  The loop of \<^verbatim>\<open>updateFn\<close> in \<^verbatim>\<open>newFakeClientList\<close>
  (\<^verbatim>\<open>nodeset_controller_test.go\<close>) over the requested states.
\<close>

fun updateStates ::
  "V0041NodeState set \<Rightarrow> V0041UpdateNodeMsgState list \<Rightarrow> V0041NodeState set" where
  "updateStates stateSet [] = stateSet"
| "updateStates stateSet (stateReq # statesReq) =
     (if stateReq = V0041UpdateNodeMsgStateUNDRAIN
      then updateStates (stateSet - {V0041NodeStateDRAIN}) statesReq
      else updateStates (insert stateReq stateSet) statesReq)"

text \<open>
  \<^verbatim>\<open>stateSet.UnsortedList()\<close> returns the elements in an order the library leaves open: the
  listing function is a parameter.
\<close>

definition updateFn ::
  "(V0041NodeState set \<Rightarrow> V0041NodeState list) \<Rightarrow> SlurmObject \<Rightarrow> UpdateRequest
     \<Rightarrow> string + SlurmObject" where
  "updateFn UnsortedList obj req =
     (case obj of
        V0041NodeObject o' \<Rightarrow>
          (case req of
             UpdateNodeMsg r \<Rightarrow>
               (let stateSet = set (Deref (slurmState o'));
                    statesReq = Deref (msgState r);
                    stateSet' = updateStates stateSet statesReq
                in Inr (V0041NodeObject
                     (o'\<lparr>slurmState := Some (UnsortedList stateSet'),
                         slurmComment := msgComment r,
                         slurmReason := msgReason r\<rparr>)))
           | OtherRequest \<Rightarrow> Inl ''failed to cast request object'')
      | OtherSlurmObject \<Rightarrow> Inl ''failed to cast slurm object'')"

text \<open>
  The transition the spec gives for \<^verbatim>\<open>UpdateState\<close>, in its own words: a fold over the
  requested states in order, where \<^verbatim>\<open>UNDRAIN\<close> removes \<^verbatim>\<open>DRAIN\<close> and any other
  requested state is inserted.
\<close>

definition spec_transition :: "V0041UpdateNodeMsgState \<Rightarrow> V0041NodeState set \<Rightarrow> V0041NodeState set" where
  "spec_transition stateReq S =
     (if stateReq = ''UNDRAIN'' then S - {''DRAIN''} else insert stateReq S)"

definition spec_UpdateState ::
  "V0041NodeState set \<Rightarrow> V0041UpdateNodeMsgState list \<Rightarrow> V0041NodeState set" where
  "spec_UpdateState S L = fold spec_transition L S"

subsection \<open>The Slurm node informer\<close>








section \<open>The reconciler\<close>

subsection \<open>Process-wide state of the controller\<close>

text \<open>
  \<^verbatim>\<open>time.Duration\<close> counts nanoseconds. \<^verbatim>\<open>flowcontrol.NewBackOff\<close> stores its two
  arguments as the initial and the maximal duration of the backoff.
\<close>

type_synonym Duration = int

definition Second :: Duration where
  "Second = 1000000000"

definition Minute :: Duration where
  "Minute = 60 * Second"

definition BackoffGCInterval :: Duration where
  "BackoffGCInterval = 1 * Minute"

record Backoff =
  defaultDuration :: Duration
  maxDuration :: Duration

definition NewBackOff :: "Duration \<Rightarrow> Duration \<Rightarrow> Backoff" where
  "NewBackOff initial maxi = \<lparr>defaultDuration = initial, maxDuration = maxi\<rparr>"

definition failedPodsBackoff :: Backoff where
  "failedPodsBackoff = NewBackOff (1 * Second) (15 * Minute)"

text \<open>
  A running \<^verbatim>\<open>wait.Until(b.GC, period, stop)\<close> goroutine is recorded by the registry it
  collects and its period.
\<close>

record GCLoop =
  gcBackoff :: Backoff
  gcPeriod :: Duration

type_synonym DurationStore = "string \<rightharpoonup> Duration"

text \<open>
  The package variables of \<^verbatim>\<open>nodeset_controller.go\<close>, with the goroutines the
  process has started: \<open>onceBackoffGC\<close> is the \<^verbatim>\<open>done\<close> flag of the
  \<^verbatim>\<open>sync.Once\<close>.
\<close>

record Process =
  durationStore :: DurationStore
  onceBackoffGC :: bool
  goroutines :: "GCLoop list"

definition processStart :: Process where
  "processStart = \<lparr>durationStore = Map.empty, onceBackoffGC = False, goroutines = []\<rparr>"

text \<open>\<^verbatim>\<open>sync.Once.Do\<close>: the function runs unless a call has run it before.\<close>

definition Once_Do :: "(Process \<Rightarrow> Process) \<Rightarrow> Process \<Rightarrow> Process" where
  "Once_Do f p = (if onceBackoffGC p then p else (f p)\<lparr>onceBackoffGC := True\<rparr>)"

definition startBackoffGC :: "Process \<Rightarrow> Process" where
  "startBackoffGC p =
     p\<lparr>goroutines := goroutines p @ [\<lparr>gcBackoff = failedPodsBackoff, gcPeriod = BackoffGCInterval\<rparr>]\<rparr>"

text \<open>
  Modelled from the spec: the package \<^verbatim>\<open>durationstore\<close> is not among the source files.
  The spec describes a per-request registry of requeue delays whose entry for a key is popped
  and returned; popping removes the entry, and a key without an entry gives the zero duration.
\<close>

definition Pop :: "DurationStore \<Rightarrow> string \<Rightarrow> Duration \<times> DurationStore" where
  "Pop ds key = (case ds key of None \<Rightarrow> (0, ds) | Some d \<Rightarrow> (d, ds(key := None)))"

text \<open>\<^verbatim>\<open>types.NamespacedName.String\<close>, which \<^verbatim>\<open>reconcile.Request\<close> inherits.\<close>

definition Request_String :: "Request \<Rightarrow> string" where
  "Request_String req = Namespace req @ ''/'' @ Name req"

record Result =
  Requeue :: bool
  RequeueAfter :: Duration

text \<open>
  \<^verbatim>\<open>Reconcile\<close>. \<^verbatim>\<open>Sync\<close> is not among the source files and is a parameter: it
  may push delays into the duration store and returns its error. The deferred function runs
  after the results are set and pops the store once more.
\<close>

definition Reconcile ::
  "(Request \<Rightarrow> DurationStore \<Rightarrow> error option \<times> DurationStore) \<Rightarrow> Request \<Rightarrow> Process
     \<Rightarrow> (Result \<times> error option) \<times> Process" where
  "Reconcile Sync req p =
     (let p1 = Once_Do startBackoffGC p;
          (retErr, ds1) = Sync req (durationStore p1);
          (d, ds2) = Pop ds1 (Request_String req);
          res = \<lparr>Requeue = False, RequeueAfter = d\<rparr>;
          (d', ds3) = Pop ds2 (Request_String req)
      in ((res, retErr), p1\<lparr>durationStore := ds3\<rparr>))"

text \<open>A sequence of \<^verbatim>\<open>Reconcile\<close> calls in one process, results dropped.\<close>

fun reconcileAll ::
  "(Request \<Rightarrow> DurationStore \<Rightarrow> error option \<times> DurationStore) \<Rightarrow> Request list \<Rightarrow> Process
     \<Rightarrow> Process" where
  "reconcileAll Sync [] p = p"
| "reconcileAll Sync (req # reqs) p = reconcileAll Sync reqs (snd (Reconcile Sync req p))"

subsection \<open>Drain-then-delete\<close>

text \<open>
  \<^verbatim>\<open>Sync\<close> and the package \<^verbatim>\<open>slurmcontrol\<close> are not among the source files. What
  follows is written from the spec: its SlurmControl, which addresses a Slurm node by its
  hostname, and the drain-then-delete step of its Reconciler.
\<close>

text \<open>
  Modelled from the spec: a Slurm node, missing from the source files, has a set of states, a
  comment and a reason; a cluster registers nodes under their hostnames.
\<close>

record SlurmNode =
  states :: "V0041NodeState set"
  comment :: string
  reason :: string

type_synonym SlurmCluster = "string \<rightharpoonup> SlurmNode"





text \<open>
  Modelled from the spec: the state the missing \<^verbatim>\<open>Sync\<close> works on. An owned pod carries
  the hostname that pairs it with its Slurm node, its phase, and for how long it has been in
  that phase. The world of one NodeSet is the Slurm cluster, the owned pods, the deletion UIDs
  recorded in the expectations, and the backoff window of each pod key in the registry of
  failed pods.
\<close>

datatype PodPhase = Pending | Running

record OwnedPod =
  ownedName :: string
  ownedUID :: string
  hostname :: string
  phase :: PodPhase
  inPhaseFor :: Duration

record World =
  slurm :: SlurmCluster
  ownedPods :: "OwnedPod list"
  expectedDeletions :: "string list"
  podBackoffs :: "string \<rightharpoonup> Duration"







section \<open>A concrete cluster\<close>

text \<open>
  An instance of the label-selector library for concrete scenarios. It follows
  \<^verbatim>\<open>LabelSelectorAsSelector\<close> of apimachinery: a nil selector selects nothing, a selector
  without labels and expressions selects everything and is the only empty one, an unknown
  operator or a wrong number of values is an error. The syntax checks of keys and values are
  left out.
\<close>

datatype Operator = OpEquals | OpIn | OpNotIn | OpExists | OpDoesNotExist

datatype Requirement = Requirement string Operator "string list"

datatype Selector = nothingSelector | internalSelector "Requirement list"

definition NewRequirement :: "string \<Rightarrow> Operator \<Rightarrow> string list \<Rightarrow> error + Requirement" where
  "NewRequirement key op vals =
     (case op of
        OpEquals \<Rightarrow> if length vals \<noteq> 1 then Inl (ApiError ''exact-match needs one value'')
                    else Inr (Requirement key op vals)
      | OpIn \<Rightarrow> if length vals = 0 then Inl (ApiError ''set-based needs values'')
                else Inr (Requirement key op vals)
      | OpNotIn \<Rightarrow> if length vals = 0 then Inl (ApiError ''set-based needs values'')
                   else Inr (Requirement key op vals)
      | OpExists \<Rightarrow> if length vals \<noteq> 0 then Inl (ApiError ''values must be empty'')
                    else Inr (Requirement key op vals)
      | OpDoesNotExist \<Rightarrow> if length vals \<noteq> 0 then Inl (ApiError ''values must be empty'')
                          else Inr (Requirement key op vals))"

fun labelRequirements :: "(string \<times> string) list \<Rightarrow> error + Requirement list" where
  "labelRequirements [] = Inr []"
| "labelRequirements ((k, v) # kvs) =
     (case NewRequirement k OpEquals [v] of
        Inl err \<Rightarrow> Inl err
      | Inr r \<Rightarrow> (case labelRequirements kvs of Inl err \<Rightarrow> Inl err | Inr rs \<Rightarrow> Inr (r # rs)))"

definition operatorOf :: "string \<Rightarrow> error + Operator" where
  "operatorOf s =
     (if s = ''In'' then Inr OpIn
      else if s = ''NotIn'' then Inr OpNotIn
      else if s = ''Exists'' then Inr OpExists
      else if s = ''DoesNotExist'' then Inr OpDoesNotExist
      else Inl (ApiError ''not a valid label selector operator''))"

fun expressionRequirements :: "LabelSelectorRequirement list \<Rightarrow> error + Requirement list" where
  "expressionRequirements [] = Inr []"
| "expressionRequirements (expr # exprs) =
     (case operatorOf (reqOperator expr) of
        Inl err \<Rightarrow> Inl err
      | Inr op \<Rightarrow>
          (case NewRequirement (reqKey expr) op (reqValues expr) of
             Inl err \<Rightarrow> Inl err
           | Inr r \<Rightarrow>
               (case expressionRequirements exprs of
                  Inl err \<Rightarrow> Inl err
                | Inr rs \<Rightarrow> Inr (r # rs))))"

definition asSelector :: "LabelSelector option \<Rightarrow> error + Selector" where
  "asSelector ps =
     (case ps of
        None \<Rightarrow> Inr nothingSelector
      | Some sel \<Rightarrow>
          if length (MatchLabels sel) + length (MatchExpressions sel) = 0
          then Inr (internalSelector [])
          else (case labelRequirements (MatchLabels sel) of
                  Inl err \<Rightarrow> Inl err
                | Inr rs1 \<Rightarrow>
                    (case expressionRequirements (MatchExpressions sel) of
                       Inl err \<Rightarrow> Inl err
                     | Inr rs2 \<Rightarrow> Inr (internalSelector (rs1 @ rs2)))))"

fun requirementMatches :: "Requirement \<Rightarrow> (string \<rightharpoonup> string) \<Rightarrow> bool" where
  "requirementMatches (Requirement key op vals) ls =
     (case op of
        OpEquals \<Rightarrow> (case ls key of None \<Rightarrow> False | Some v \<Rightarrow> v \<in> set vals)
      | OpIn \<Rightarrow> (case ls key of None \<Rightarrow> False | Some v \<Rightarrow> v \<in> set vals)
      | OpNotIn \<Rightarrow> (case ls key of None \<Rightarrow> True | Some v \<Rightarrow> v \<notin> set vals)
      | OpExists \<Rightarrow> (case ls key of None \<Rightarrow> False | Some v \<Rightarrow> True)
      | OpDoesNotExist \<Rightarrow> (case ls key of None \<Rightarrow> True | Some v \<Rightarrow> False))"

definition selectorEmpty :: "Selector \<Rightarrow> bool" where
  "selectorEmpty s = (case s of nothingSelector \<Rightarrow> False | internalSelector rs \<Rightarrow> length rs = 0)"

definition selectorMatches :: "Selector \<Rightarrow> (string \<rightharpoonup> string) \<Rightarrow> bool" where
  "selectorMatches s ls =
     (case s of
        nothingSelector \<Rightarrow> False
      | internalSelector rs \<Rightarrow> list_all (\<lambda>r. requirementMatches r ls) rs)"

definition apimachinery :: "Selector labels_api" where
  "apimachinery =
     \<lparr>LabelSelectorAsSelector = asSelector, Empty = selectorEmpty, Matches = selectorMatches\<rparr>"

text \<open>
  The NodeSet of the controller test, \<^verbatim>\<open>test-nodeset\<close> in \<^verbatim>\<open>default\<close> with the
  selector \<^verbatim>\<open>foo: bar\<close>; a NodeSet whose selector has neither labels nor expressions; and
  a cache that holds both and no pod.
\<close>

definition testNodeSet :: NodeSet where
  "testNodeSet =
     \<lparr>nsNamespace = ''default'', nsName = ''test-nodeset'', nsUID = ''uid-1'',
      nsSelector = Some \<lparr>MatchLabels = [(''foo'', ''bar'')], MatchExpressions = []\<rparr>\<rparr>"

definition selectAllNodeSet :: NodeSet where
  "selectAllNodeSet =
     \<lparr>nsNamespace = ''default'', nsName = ''select-all'', nsUID = ''uid-2'',
      nsSelector = Some \<lparr>MatchLabels = [], MatchExpressions = []\<rparr>\<rparr>"

definition testReader :: Reader where
  "testReader =
     \<lparr>getPod = (\<lambda>key. Inl NotFound),
      getNodeSet = (\<lambda>key.
         if key = \<lparr>Namespace = ''default'', Name = ''test-nodeset''\<rparr> then Inr testNodeSet
         else if key = \<lparr>Namespace = ''default'', Name = ''select-all''\<rparr> then Inr selectAllNodeSet
         else Inl NotFound),
      listNodeSetsIn = (\<lambda>namespace.
         if namespace = ''default'' then Inr [selectAllNodeSet, testNodeSet] else Inr []),
      listNodeSets = Inr [selectAllNodeSet, testNodeSet]\<rparr>"

definition controllerRefTo :: "NodeSet \<Rightarrow> OwnerReference" where
  "controllerRefTo nodeset =
     \<lparr>refAPIVersion = ''slinky.slurm.net/v1alpha1'', refKind = ''NodeSet'',
      refName = nsName nodeset, refUID = nsUID nodeset,
      refController = Some True, refBlockOwnerDeletion = Some True\<rparr>"

definition testPod :: "string \<Rightarrow> nat option \<Rightarrow> OwnerReference list \<Rightarrow> Pod" where
  "testPod rv deleted refs =
     \<lparr>podNamespace = ''default'', podName = ''test-nodeset-abcde'', podResourceVersion = rv,
      podLabels = Some [''foo'' \<mapsto> ''bar''], podDeletionTimestamp = deleted,
      podOwnerReferences = refs\<rparr>"

text \<open>
  A controller reference to a NodeSet named \<^verbatim>\<open>test-nodeset\<close> that was deleted and
  created again: the name is that of the NodeSet in the cache, the UID is not.
\<close>

definition recreatedRef :: OwnerReference where
  "recreatedRef = (controllerRefTo testNodeSet)\<lparr>refUID := ''uid-0''\<rparr>"

text \<open>
  Stand-ins for the two node helpers in concrete scenarios. A node condition is a pair of its
  type and its status; two condition lists are the same when the same types are true. A node
  should run and keep running the pods of every NodeSet unless it is marked unschedulable.
\<close>

definition sameTrueConditions :: "(string \<times> string) list \<Rightarrow> (string \<times> string) list \<Rightarrow> bool" where
  "sameTrueConditions old cur =
     (set (map fst (filter (\<lambda>c. snd c = ''True'') old))
        = set (map fst (filter (\<lambda>c. snd c = ''True'') cur)))"

definition runsUnlessUnschedulable :: "(string \<times> string) Node \<Rightarrow> NodeSet \<Rightarrow> bool \<times> bool" where
  "runsUnlessUnschedulable node nodeset =
     (nodeOther node \<noteq> ''unschedulable'', nodeOther node \<noteq> ''unschedulable'')"

definition testNode :: "string \<Rightarrow> (string \<times> string) list \<Rightarrow> string \<Rightarrow> (string \<times> string) Node" where
  "testNode rv conds other =
     \<lparr>nodeName = ''node-1'', nodeResourceVersion = rv, nodeConditions = conds, nodeOther = other\<rparr>"

text \<open>
  The Slurm node \<^verbatim>\<open>node-1\<close> of the controller test, idle, then draining; a listing function
  for state sets (the sorted one); and the drain and undrain messages.
\<close>

definition idleNode :: V0041Node where
  "idleNode =
     \<lparr>slurmName = Some ''node-1'', slurmState = Some [''IDLE''], slurmComment = None,
      slurmReason = None\<rparr>"

definition drainingNode :: V0041Node where
  "drainingNode =
     \<lparr>slurmName = Some ''node-1'', slurmState = Some [''IDLE'', ''DRAIN''], slurmComment = None,
      slurmReason = Some ''nodeset scale-down''\<rparr>"

definition sortedList :: "V0041NodeState set \<Rightarrow> V0041NodeState list" where
  "sortedList S = sorted_list_of_set S"

definition drainMsg :: V0041UpdateNodeMsg where
  "drainMsg =
     \<lparr>msgState = Some [''DRAIN''], msgComment = None, msgReason = Some ''nodeset scale-down''\<rparr>"

definition undrainMsg :: V0041UpdateNodeMsg where
  "undrainMsg = \<lparr>msgState = Some [''UNDRAIN'', ''RESUME''], msgComment = None, msgReason = None\<rparr>"






text \<open>A \<^verbatim>\<open>Sync\<close> that asks for a requeue after thirty seconds and succeeds.\<close>

definition requeueingSync :: "Request \<Rightarrow> DurationStore \<Rightarrow> error option \<times> DurationStore" where
  "requeueingSync req ds = (None, ds(Request_String req \<mapsto> 30 * Second))"

definition testRequest :: Request where
  "testRequest = \<lparr>Namespace = ''default'', Name = ''test-nodeset''\<rparr>"




section \<open>Properties\<close>

subsection \<open>Shared facts\<close>

lemmas scenario_defs = testReader_def testNodeSet_def selectAllNodeSet_def controllerRefTo_def
  testPod_def

lemma controller_kind_strings:
  "gvkKind controllerKind = ''NodeSet''"
  "GroupVersion_String (gvk_GroupVersion controllerKind) = ''slinky.slurm.net/v1alpha1''"
  by (simp_all add: controllerKind_def WithKind_def GroupVersion_def GroupVersion_String_def
        gvk_GroupVersion_def)

lemma resolve_stale:
  assumes "getNodeSet e \<lparr>Namespace = namespace, Name = refName controllerRef\<rparr> = Inr other"
    and "nsUID other \<noteq> refUID controllerRef"
  shows "resolveControllerRef e namespace controllerRef = None"
  using assms by (simp add: resolveControllerRef_def)

lemma deletePod_unresolved:
  assumes "GetControllerOf pod = Some controllerRef"
    and "resolveControllerRef e (podNamespace pod) controllerRef = None"
  shows "deletePod e pod q isDeleted = q"
  using assms by (simp add: deletePod_def)

subsection \<open>Pod updates without a new resource version\<close>

text \<open>
  Claim C4. When the old pod and the new pod of a pod update event carry the same resource
  version, \<^verbatim>\<open>podEventHandler.Update\<close> returns with the work queue as it was: no NodeSet
  is enqueued, whatever the pods, the cache and the queue are.
\<close>

theorem pod_update_same_resource_version:
  "podResourceVersion curPod = podResourceVersion oldPod \<Longrightarrow>
   podEventHandler_Update L e (PodObject oldPod) (PodObject curPod) q = Inr q"
  by (simp add: podEventHandler_Update_def)

text \<open>
  The pod of the test NodeSet, resynced at resource version 7: nothing is enqueued, although
  its controller reference resolves.
\<close>

theorem pod_update_same_resource_version_witness:
  "podResourceVersion (testPod ''7'' None [controllerRefTo testNodeSet])
     = podResourceVersion (testPod ''7'' None [controllerRefTo testNodeSet])
   \<and> podEventHandler_Update apimachinery testReader
        (PodObject (testPod ''7'' None [controllerRefTo testNodeSet]))
        (PodObject (testPod ''7'' None [controllerRefTo testNodeSet])) [] = Inr []"
  using pod_update_same_resource_version
    [of "testPod ''7'' None [controllerRefTo testNodeSet]"
        "testPod ''7'' None [controllerRefTo testNodeSet]" apimachinery testReader "[]"]
  by simp

subsection \<open>Resolving a controller reference\<close>

text \<open>
  Claim C8. \<^verbatim>\<open>resolveControllerRef\<close> returns a NodeSet exactly when the reference's kind
  is \<^verbatim>\<open>NodeSet\<close>, its API version is \<^verbatim>\<open>slinky.slurm.net/v1alpha1\<close>, the cache has a
  NodeSet under the reference's name in the namespace, and that NodeSet's UID is the
  reference's UID; otherwise it returns nil. So when a pod's controller reference names a
  NodeSet that exists under that name with another UID, the create and delete handlers enqueue
  nothing for the pod. The update handler with this pod as the new pod enqueues nothing for that
  reference either: its queue is unchanged, unless the old pod had another controller reference
  that resolves, whose NodeSet is then the only one enqueued.
\<close>

theorem resolveControllerRef_checks_uid:
  "(resolveControllerRef e namespace controllerRef = Some nodeset \<longleftrightarrow>
      refKind controllerRef = ''NodeSet''
      \<and> refAPIVersion controllerRef = ''slinky.slurm.net/v1alpha1''
      \<and> getNodeSet e \<lparr>Namespace = namespace, Name = refName controllerRef\<rparr> = Inr nodeset
      \<and> nsUID nodeset = refUID controllerRef)
   \<and> (GetControllerOf pod = Some ref
        \<and> getNodeSet e \<lparr>Namespace = podNamespace pod, Name = refName ref\<rparr> = Inr other
        \<and> nsUID other \<noteq> refUID ref
      \<longrightarrow> podEventHandler_Create L e (PodObject pod) q = Inr q
          \<and> podEventHandler_Delete e (PodObject pod) q = q
          \<and> (podEventHandler_Update L e (PodObject oldPod) (PodObject pod) q = Inr q
               \<or> (\<exists>oldRef owner. GetControllerOf oldPod = Some oldRef \<and> oldRef \<noteq> ref
                     \<and> resolveControllerRef e (podNamespace oldPod) oldRef = Some owner
                     \<and> podEventHandler_Update L e (PodObject oldPod) (PodObject pod) q
                         = Inr (enqueueNodeSet q owner))))"
proof (intro conjI impI)
  show "resolveControllerRef e namespace controllerRef = Some nodeset \<longleftrightarrow>
      refKind controllerRef = ''NodeSet''
      \<and> refAPIVersion controllerRef = ''slinky.slurm.net/v1alpha1''
      \<and> getNodeSet e \<lparr>Namespace = namespace, Name = refName controllerRef\<rparr> = Inr nodeset
      \<and> nsUID nodeset = refUID controllerRef"
    unfolding resolveControllerRef_def controller_kind_strings
    by (auto split: sum.splits)
next
  assume a: "GetControllerOf pod = Some ref
        \<and> getNodeSet e \<lparr>Namespace = podNamespace pod, Name = refName ref\<rparr> = Inr other
        \<and> nsUID other \<noteq> refUID ref"
  then have g: "GetControllerOf pod = Some ref" by simp
  from a have none: "resolveControllerRef e (podNamespace pod) ref = None"
    by (simp add: resolve_stale)
  have del: "deletePod e pod q' b = q'" for q' b
    using g none by (rule deletePod_unresolved)
  show d: "podEventHandler_Delete e (PodObject pod) q = q"
    by (simp add: podEventHandler_Delete_def del)
  show "podEventHandler_Create L e (PodObject pod) q = Inr q"
    using g none by (simp add: podEventHandler_Create_def podEventHandler_Delete_def del)
  show "podEventHandler_Update L e (PodObject oldPod) (PodObject pod) q = Inr q
      \<or> (\<exists>oldRef owner. GetControllerOf oldPod = Some oldRef \<and> oldRef \<noteq> ref
            \<and> resolveControllerRef e (podNamespace oldPod) oldRef = Some owner
            \<and> podEventHandler_Update L e (PodObject oldPod) (PodObject pod) q
                = Inr (enqueueNodeSet q owner))"
  proof (cases "GetControllerOf oldPod")
    case None
    then have "podEventHandler_Update L e (PodObject oldPod) (PodObject pod) q = Inr q"
      using g none by (simp add: podEventHandler_Update_def del Let_def)
    then show ?thesis by (rule disjI1)
  next
    case (Some r)
    show ?thesis
    proof (cases "r = ref")
      case True
      then have "podEventHandler_Update L e (PodObject oldPod) (PodObject pod) q = Inr q"
        using g none Some by (simp add: podEventHandler_Update_def del Let_def)
      then show ?thesis by (rule disjI1)
    next
      case False
      show ?thesis
      proof (cases "resolveControllerRef e (podNamespace oldPod) r")
        case None
        then have "podEventHandler_Update L e (PodObject oldPod) (PodObject pod) q = Inr q"
          using g none Some False by (simp add: podEventHandler_Update_def del Let_def)
        then show ?thesis by (rule disjI1)
      next
        case (Some owner)
        show ?thesis
        proof (cases "podResourceVersion pod = podResourceVersion oldPod")
          case True
          then have "podEventHandler_Update L e (PodObject oldPod) (PodObject pod) q = Inr q"
            by (simp add: podEventHandler_Update_def)
          then show ?thesis by (rule disjI1)
        next
          case rv: False
          with Some have "podEventHandler_Update L e (PodObject oldPod) (PodObject pod) q
              = Inr (enqueueNodeSet q owner)"
            using g none \<open>GetControllerOf oldPod = Some r\<close> False
            by (simp add: podEventHandler_Update_def del Let_def)
          with Some \<open>GetControllerOf oldPod = Some r\<close> False show ?thesis by blast
        qed
      qed
    qed
  qed
qed

text \<open>
  The cache holds \<^verbatim>\<open>test-nodeset\<close> with UID \<^verbatim>\<open>uid-1\<close>. A reference with that UID
  resolves; the pod whose reference carries \<^verbatim>\<open>uid-0\<close> enqueues nothing.
\<close>

theorem resolveControllerRef_checks_uid_witness:
  "resolveControllerRef testReader ''default'' (controllerRefTo testNodeSet) = Some testNodeSet
   \<and> GetControllerOf (testPod ''2'' None [recreatedRef]) = Some recreatedRef
   \<and> getNodeSet testReader \<lparr>Namespace = ''default'', Name = ''test-nodeset''\<rparr> = Inr testNodeSet
   \<and> nsUID testNodeSet \<noteq> refUID recreatedRef
   \<and> resolveControllerRef testReader ''default'' recreatedRef = None
   \<and> podEventHandler_Create apimachinery testReader
        (PodObject (testPod ''2'' None [recreatedRef])) [] = Inr []
   \<and> podEventHandler_Delete testReader (PodObject (testPod ''2'' None [recreatedRef])) [] = []
   \<and> podEventHandler_Update apimachinery testReader
        (PodObject (testPod ''1'' None [recreatedRef]))
        (PodObject (testPod ''2'' None [recreatedRef])) [] = Inr []"
proof -
  let ?pod = "testPod ''2'' None [recreatedRef]"
  let ?old = "testPod ''1'' None [recreatedRef]"
  have g: "GetControllerOf ?pod = Some recreatedRef"
    by (simp add: GetControllerOf_def recreatedRef_def scenario_defs)
  have go: "GetControllerOf ?old = Some recreatedRef"
    by (simp add: GetControllerOf_def recreatedRef_def scenario_defs)
  have n: "getNodeSet testReader \<lparr>Namespace = podNamespace ?pod, Name = refName recreatedRef\<rparr>
             = Inr testNodeSet"
    by (simp add: recreatedRef_def scenario_defs)
  have u: "nsUID testNodeSet \<noteq> refUID recreatedRef"
    by (simp add: recreatedRef_def scenario_defs)
  note inst = resolveControllerRef_checks_uid
      [of testReader "''default''" "controllerRefTo testNodeSet" testNodeSet ?pod recreatedRef
          testNodeSet apimachinery "[]" ?old]
  have "resolveControllerRef testReader ''default'' (controllerRefTo testNodeSet) = Some testNodeSet
      \<longleftrightarrow> refKind (controllerRefTo testNodeSet) = ''NodeSet''
      \<and> refAPIVersion (controllerRefTo testNodeSet) = ''slinky.slurm.net/v1alpha1''
      \<and> getNodeSet testReader \<lparr>Namespace = ''default'', Name = refName (controllerRefTo testNodeSet)\<rparr>
            = Inr testNodeSet
      \<and> nsUID testNodeSet = refUID (controllerRefTo testNodeSet)"
    using inst by (rule conjunct1)
  then have r: "resolveControllerRef testReader ''default'' (controllerRefTo testNodeSet) = Some testNodeSet"
    by (simp add: scenario_defs)
  have none: "resolveControllerRef testReader ''default'' recreatedRef = None"
    by (simp add: resolveControllerRef_def controller_kind_strings recreatedRef_def scenario_defs)
  have rest: "podEventHandler_Create apimachinery testReader (PodObject ?pod) [] = Inr []
      \<and> podEventHandler_Delete testReader (PodObject ?pod) [] = []
      \<and> podEventHandler_Update apimachinery testReader (PodObject ?old) (PodObject ?pod) [] = Inr []"
  proof -
    from inst g n u
    have c: "podEventHandler_Create apimachinery testReader (PodObject ?pod) [] = Inr []"
      and d: "podEventHandler_Delete testReader (PodObject ?pod) [] = []"
      and "podEventHandler_Update apimachinery testReader (PodObject ?old) (PodObject ?pod) []
            = Inr []
          \<or> (\<exists>oldRef owner. GetControllerOf ?old = Some oldRef \<and> oldRef \<noteq> recreatedRef
                \<and> resolveControllerRef testReader (podNamespace ?old) oldRef = Some owner
                \<and> podEventHandler_Update apimachinery testReader (PodObject ?old)
                      (PodObject ?pod) [] = Inr (enqueueNodeSet [] owner))"
      by blast+
    then have "podEventHandler_Update apimachinery testReader (PodObject ?old) (PodObject ?pod) []
            = Inr []"
      using go by auto
    with c d show ?thesis by blast
  qed
  have n': "getNodeSet testReader \<lparr>Namespace = ''default'', Name = ''test-nodeset''\<rparr> = Inr testNodeSet"
    by (simp add: scenario_defs)
  show ?thesis using g n' u r none rest by simp
qed

subsection \<open>Creation of a pod that is already terminating\<close>

lemmas selector_defs = selectsPod_def apimachinery_def asSelector_def NewRequirement_def
  selectorEmpty_def selectorMatches_def labelsSet_def

text \<open>
  Claim C9. When the pod of a create event already has its deletion timestamp set,
  \<^verbatim>\<open>podEventHandler.Create\<close> does what \<^verbatim>\<open>podEventHandler.Delete\<close> does on the
  same object and nothing else: the queue it returns is the queue \<^verbatim>\<open>Delete\<close> returns. The
  pod is not handled as a created pod: without a controller reference nothing is enqueued, and
  the NodeSets whose selectors match the pod are not looked up.
\<close>

theorem create_of_terminating_pod_is_delete:
  "IsTerminating pod \<Longrightarrow>
     podEventHandler_Create L e (PodObject pod) q = Inr (podEventHandler_Delete e (PodObject pod) q)
     \<and> (GetControllerOf pod = None \<longrightarrow> podEventHandler_Create L e (PodObject pod) q = Inr q)"
  by (simp add: podEventHandler_Create_def podEventHandler_Delete_def deletePod_def)

text \<open>
  A terminating pod owned by the test NodeSet enqueues its owner, as its deletion does; a
  terminating orphan enqueues nothing, although the same orphan, not terminating, enqueues the
  NodeSet that selects it.
\<close>

theorem create_of_terminating_pod_is_delete_witness:
  "IsTerminating (testPod ''1'' (Some 30) [controllerRefTo testNodeSet])
   \<and> podEventHandler_Create apimachinery testReader
        (PodObject (testPod ''1'' (Some 30) [controllerRefTo testNodeSet])) []
      = Inr (podEventHandler_Delete testReader
          (PodObject (testPod ''1'' (Some 30) [controllerRefTo testNodeSet])) [])
   \<and> podEventHandler_Delete testReader
          (PodObject (testPod ''1'' (Some 30) [controllerRefTo testNodeSet])) []
      = [\<lparr>Namespace = ''default'', Name = ''test-nodeset''\<rparr>]
   \<and> IsTerminating (testPod ''1'' (Some 30) [])
   \<and> podEventHandler_Create apimachinery testReader (PodObject (testPod ''1'' (Some 30) [])) []
      = Inr []
   \<and> podEventHandler_Create apimachinery testReader (PodObject (testPod ''1'' None [])) []
      = Inr [\<lparr>Namespace = ''default'', Name = ''test-nodeset''\<rparr>]"
proof -
  let ?owned = "testPod ''1'' (Some 30) [controllerRefTo testNodeSet]"
  let ?orphan = "testPod ''1'' (Some 30) []"
  have t1: "IsTerminating ?owned" by (simp add: IsTerminating_def testPod_def)
  have t2: "IsTerminating ?orphan" by (simp add: IsTerminating_def testPod_def)
  have g2: "GetControllerOf ?orphan = None" by (simp add: GetControllerOf_def testPod_def)
  have c1: "podEventHandler_Create apimachinery testReader (PodObject ?owned) []
      = Inr (podEventHandler_Delete testReader (PodObject ?owned) [])"
    using create_of_terminating_pod_is_delete [OF t1, of apimachinery testReader "[]"] by blast
  have c2: "podEventHandler_Create apimachinery testReader (PodObject ?orphan) [] = Inr []"
    using create_of_terminating_pod_is_delete [OF t2, of apimachinery testReader "[]"] g2 by blast
  have d: "podEventHandler_Delete testReader (PodObject ?owned) []
      = [\<lparr>Namespace = ''default'', Name = ''test-nodeset''\<rparr>]"
    by (simp add: podEventHandler_Delete_def deletePod_def GetControllerOf_def
          resolveControllerRef_def controller_kind_strings enqueueNodeSet_def scenario_defs)
  have live: "podEventHandler_Create apimachinery testReader (PodObject (testPod ''1'' None [])) []
      = Inr [\<lparr>Namespace = ''default'', Name = ''test-nodeset''\<rparr>]"
    by (simp add: podEventHandler_Create_def IsTerminating_def GetControllerOf_def
          getPodNodeSets_def selectsPod_def apimachinery_def asSelector_def NewRequirement_def
          selectorEmpty_def selectorMatches_def labelsSet_def enqueueNodeSet_def scenario_defs)
  show ?thesis using t1 t2 c1 c2 d live by blast
qed

subsection \<open>NodeSets matching an orphan\<close>

lemma matchLoop_filter:
  "matchLoop L pod nsMatched items = nsMatched @ filter (selectsPod L pod) items"
  by (induction items arbitrary: nsMatched) simp_all

lemma getPodNodeSets_subset:
  "nodeset \<in> set (getPodNodeSets L e pod) \<Longrightarrow> selectsPod L pod nodeset"
  by (auto simp: getPodNodeSets_def matchLoop_filter split: sum.splits)

lemma selectsPod_iff:
  "selectsPod L pod nodeset \<longleftrightarrow>
     (\<exists>selector. LabelSelectorAsSelector L (nsSelector nodeset) = Inr selector
        \<and> \<not> Empty L selector \<and> Matches L selector (labelsSet (podLabels pod)))"
  by (auto simp: selectsPod_def split: sum.splits)

text \<open>
  Claim C10. Every NodeSet that \<^verbatim>\<open>getPodNodeSets\<close> returns for a pod has a selector that
  converts without error, is not empty, and matches the pod's labels. The orphan paths enqueue
  from this list only: \<^verbatim>\<open>Create\<close> of an orphan that is not terminating enqueues exactly
  the returned NodeSets, and \<^verbatim>\<open>Update\<close> to an orphan that is not terminating enqueues
  returned NodeSets only, after the old pod's controller if that one resolves. So a NodeSet with
  an empty or invalid selector is never enqueued for an orphan.
\<close>

theorem orphan_match_excludes_empty_selectors:
  "(\<forall>nodeset \<in> set (getPodNodeSets L e pod).
      \<exists>selector. LabelSelectorAsSelector L (nsSelector nodeset) = Inr selector
        \<and> \<not> Empty L selector \<and> Matches L selector (labelsSet (podLabels pod)))
   \<and> (\<not> IsTerminating pod \<and> GetControllerOf pod = None \<longrightarrow>
        podEventHandler_Create L e (PodObject pod) q
          = Inr (foldl enqueueNodeSet q (getPodNodeSets L e pod)))
   \<and> (podDeletionTimestamp pod = None \<and> GetControllerOf pod = None \<longrightarrow>
        (\<exists>q1 matched. podEventHandler_Update L e (PodObject oldPod) (PodObject pod) q
            = Inr (foldl enqueueNodeSet q1 matched)
          \<and> set matched \<subseteq> set (getPodNodeSets L e pod)
          \<and> (q1 = q \<or> (\<exists>oldRef owner. GetControllerOf oldPod = Some oldRef
                \<and> resolveControllerRef e (podNamespace oldPod) oldRef = Some owner
                \<and> q1 = enqueueNodeSet q owner))))"
proof (intro conjI impI ballI)
  fix nodeset assume "nodeset \<in> set (getPodNodeSets L e pod)"
  then show "\<exists>selector. LabelSelectorAsSelector L (nsSelector nodeset) = Inr selector
        \<and> \<not> Empty L selector \<and> Matches L selector (labelsSet (podLabels pod))"
    using getPodNodeSets_subset selectsPod_iff by blast
next
  assume "\<not> IsTerminating pod \<and> GetControllerOf pod = None"
  then show "podEventHandler_Create L e (PodObject pod) q
          = Inr (foldl enqueueNodeSet q (getPodNodeSets L e pod))"
    by (simp add: podEventHandler_Create_def Let_def)
next
  assume a: "podDeletionTimestamp pod = None \<and> GetControllerOf pod = None"
  define same where "same = (podResourceVersion pod = podResourceVersion oldPod)"
  define q1 where "q1 =
    (if same then q
     else case GetControllerOf oldPod of
            None \<Rightarrow> q
          | Some oldRef \<Rightarrow>
              (case resolveControllerRef e (podNamespace oldPod) oldRef of
                 Some owner \<Rightarrow> enqueueNodeSet q owner
               | None \<Rightarrow> q))"
  define matched where "matched =
    (if same then []
     else if podLabels pod \<noteq> podLabels oldPod \<or> GetControllerOf oldPod \<noteq> None
          then getPodNodeSets L e pod else [])"
  have eq: "podEventHandler_Update L e (PodObject oldPod) (PodObject pod) q
      = Inr (foldl enqueueNodeSet q1 matched)"
    using a unfolding podEventHandler_Update_def q1_def matched_def same_def
    by (simp add: Let_def split: option.splits)
  have sub: "set matched \<subseteq> set (getPodNodeSets L e pod)"
    by (auto simp: matched_def)
  have src: "q1 = q \<or> (\<exists>oldRef owner. GetControllerOf oldPod = Some oldRef
                \<and> resolveControllerRef e (podNamespace oldPod) oldRef = Some owner
                \<and> q1 = enqueueNodeSet q owner)"
    by (simp add: q1_def split: option.splits)
  from eq sub src
  show "\<exists>q1 matched. podEventHandler_Update L e (PodObject oldPod) (PodObject pod) q
            = Inr (foldl enqueueNodeSet q1 matched)
          \<and> set matched \<subseteq> set (getPodNodeSets L e pod)
          \<and> (q1 = q \<or> (\<exists>oldRef owner. GetControllerOf oldPod = Some oldRef
                \<and> resolveControllerRef e (podNamespace oldPod) oldRef = Some owner
                \<and> q1 = enqueueNodeSet q owner))"
    by blast
qed

text \<open>
  The cache lists \<^verbatim>\<open>select-all\<close>, whose selector is empty and matches every pod, before
  \<^verbatim>\<open>test-nodeset\<close>. For an orphan labelled \<^verbatim>\<open>foo: bar\<close> only \<^verbatim>\<open>test-nodeset\<close>
  is returned and enqueued.
\<close>

theorem orphan_match_excludes_empty_selectors_witness:
  "getPodNodeSets apimachinery testReader (testPod ''1'' None []) = [testNodeSet]
   \<and> (\<exists>selector. LabelSelectorAsSelector apimachinery (nsSelector testNodeSet) = Inr selector
         \<and> \<not> Empty apimachinery selector
         \<and> Matches apimachinery selector (labelsSet (podLabels (testPod ''1'' None []))))
   \<and> LabelSelectorAsSelector apimachinery (nsSelector selectAllNodeSet) = Inr (internalSelector [])
   \<and> Empty apimachinery (internalSelector [])
   \<and> Matches apimachinery (internalSelector []) (labelsSet (podLabels (testPod ''1'' None [])))
   \<and> podEventHandler_Create apimachinery testReader (PodObject (testPod ''1'' None [])) []
        = Inr [\<lparr>Namespace = ''default'', Name = ''test-nodeset''\<rparr>]
   \<and> podEventHandler_Update apimachinery testReader
        (PodObject (testPod ''1'' None [controllerRefTo testNodeSet]))
        (PodObject (testPod ''2'' None [])) []
        = Inr [\<lparr>Namespace = ''default'', Name = ''test-nodeset''\<rparr>,
               \<lparr>Namespace = ''default'', Name = ''test-nodeset''\<rparr>]"
proof -
  let ?pod = "testPod ''1'' None []"
  note inst = orphan_match_excludes_empty_selectors
    [of apimachinery testReader ?pod "[]" "testPod ''0'' None []"]
  have l: "getPodNodeSets apimachinery testReader ?pod = [testNodeSet]"
    by (simp add: getPodNodeSets_def selector_defs scenario_defs)
  have orphan: "\<not> IsTerminating ?pod \<and> GetControllerOf ?pod = None"
    by (simp add: IsTerminating_def GetControllerOf_def testPod_def)
  from inst have "\<forall>nodeset \<in> set (getPodNodeSets apimachinery testReader ?pod).
      \<exists>selector. LabelSelectorAsSelector apimachinery (nsSelector nodeset) = Inr selector
        \<and> \<not> Empty apimachinery selector
        \<and> Matches apimachinery selector (labelsSet (podLabels ?pod))"
    by (rule conjunct1)
  then have m: "\<exists>selector. LabelSelectorAsSelector apimachinery (nsSelector testNodeSet) = Inr selector
        \<and> \<not> Empty apimachinery selector
        \<and> Matches apimachinery selector (labelsSet (podLabels ?pod))"
    by (simp add: l)
  from inst orphan
  have "podEventHandler_Create apimachinery testReader (PodObject ?pod) []
          = Inr (foldl enqueueNodeSet [] (getPodNodeSets apimachinery testReader ?pod))"
    by blast
  then have c: "podEventHandler_Create apimachinery testReader (PodObject ?pod) []
        = Inr [\<lparr>Namespace = ''default'', Name = ''test-nodeset''\<rparr>]"
    by (simp add: l enqueueNodeSet_def testNodeSet_def)
  have a: "LabelSelectorAsSelector apimachinery (nsSelector selectAllNodeSet)
        = Inr (internalSelector [])"
    by (simp add: apimachinery_def asSelector_def selectAllNodeSet_def)
  have e: "Empty apimachinery (internalSelector [])"
    by (simp add: apimachinery_def selectorEmpty_def)
  have ma: "Matches apimachinery (internalSelector []) (labelsSet (podLabels ?pod))"
    by (simp add: apimachinery_def selectorMatches_def)
  have u: "podEventHandler_Update apimachinery testReader
        (PodObject (testPod ''1'' None [controllerRefTo testNodeSet]))
        (PodObject (testPod ''2'' None [])) []
        = Inr [\<lparr>Namespace = ''default'', Name = ''test-nodeset''\<rparr>,
               \<lparr>Namespace = ''default'', Name = ''test-nodeset''\<rparr>]"
    by (simp add: podEventHandler_Update_def GetControllerOf_def getPodNodeSets_def
          resolveControllerRef_def controller_kind_strings enqueueNodeSet_def
          selector_defs scenario_defs)
  show ?thesis using l m a e ma c u by blast
qed

subsection \<open>Node updates\<close>

lemma nodeUpdateStep_eq:
  "nodeUpdateStep should oldNode curNode q nodeset =
     (if should oldNode nodeset \<noteq> should curNode nodeset
      then q @ [\<lparr>Namespace = nsNamespace nodeset, Name = nsName nodeset\<rparr>] else q)"
  by (cases "should oldNode nodeset"; cases "should curNode nodeset")
     (auto simp: nodeUpdateStep_def)

lemma nodeUpdate_loop:
  "foldl (nodeUpdateStep should oldNode curNode) q items =
     q @ map (\<lambda>nodeset. \<lparr>Namespace = nsNamespace nodeset, Name = nsName nodeset\<rparr>)
           (filter (\<lambda>nodeset. should oldNode nodeset \<noteq> should curNode nodeset) items)"
  by (induction items arbitrary: q) (simp_all add: nodeUpdateStep_eq)

lemmas node_defs = nodeEventHandler_Update_def shouldIgnoreNodeUpdate_def nodeUpdateStep_def
  sameTrueConditions_def runsUnlessUnschedulable_def testNode_def

text \<open>
  Claim C2. For a node update event, \<^verbatim>\<open>nodeEventHandler.Update\<close> appends to the queue
  the requests of some NodeSets, and of no others. For each of them the pair
  \<open>(shouldRun, shouldContinueRunning)\<close> of the old node differs from that of the new node or
  the node conditions changed; where neither holds no request is enqueued. The code asks for
  more than the claim: the pair differs for every enqueued NodeSet and the update was not
  ignored; and when the update is not ignored and the NodeSets can be listed, the enqueued
  NodeSets are exactly the listed ones whose pair differs, in the order of the list.
\<close>

theorem node_update_enqueues_on_transition_only:
  assumes "nodeEventHandler_Update same should e (NodeObject oldNode) (NodeObject curNode) q
             = Inr q'"
  shows "\<exists>enqueued.
           q' = q @ map (\<lambda>nodeset. \<lparr>Namespace = nsNamespace nodeset, Name = nsName nodeset\<rparr>)
                      enqueued
           \<and> (\<forall>nodeset \<in> set enqueued.
                 should oldNode nodeset \<noteq> should curNode nodeset
                 \<or> \<not> same (nodeConditions oldNode) (nodeConditions curNode))
           \<and> (\<forall>nodeset \<in> set enqueued.
                 should oldNode nodeset \<noteq> should curNode nodeset
                 \<and> \<not> shouldIgnoreNodeUpdate same oldNode curNode)
           \<and> (\<forall>items. listNodeSets e = Inr items
                 \<and> \<not> shouldIgnoreNodeUpdate same oldNode curNode \<longrightarrow>
                 enqueued = filter (\<lambda>nodeset. should oldNode nodeset \<noteq> should curNode nodeset)
                              items)"
proof (cases "shouldIgnoreNodeUpdate same oldNode curNode")
  case True
  with assms have "q' = q" by (simp add: nodeEventHandler_Update_def)
  with True show ?thesis by (intro exI [of _ "[]"]) simp
next
  case False
  show ?thesis
  proof (cases "listNodeSets e")
    case (Inl err)
    with assms False have "q' = q" by (simp add: nodeEventHandler_Update_def)
    with Inl show ?thesis by (intro exI [of _ "[]"]) simp
  next
    case (Inr items)
    let ?enq = "filter (\<lambda>nodeset. should oldNode nodeset \<noteq> should curNode nodeset) items"
    from assms False Inr
    have "q' = q @ map (\<lambda>nodeset. \<lparr>Namespace = nsNamespace nodeset, Name = nsName nodeset\<rparr>) ?enq"
      by (simp add: nodeEventHandler_Update_def nodeUpdate_loop)
    with Inr False show ?thesis by (intro exI [of _ ?enq]) simp
  qed
qed

text \<open>
  A node that stops being unschedulable enqueues both NodeSets of the cache. A node whose
  \<^verbatim>\<open>Ready\<close> condition turns false, with the same pair before and after, enqueues none.
\<close>

theorem node_update_enqueues_on_transition_only_witness:
  "nodeEventHandler_Update sameTrueConditions runsUnlessUnschedulable testReader
      (NodeObject (testNode ''1'' [(''Ready'', ''True'')] ''unschedulable''))
      (NodeObject (testNode ''2'' [(''Ready'', ''True'')] [])) []
     = Inr [\<lparr>Namespace = ''default'', Name = ''select-all''\<rparr>,
            \<lparr>Namespace = ''default'', Name = ''test-nodeset''\<rparr>]
   \<and> (\<exists>enqueued.
         [\<lparr>Namespace = ''default'', Name = ''select-all''\<rparr>,
          \<lparr>Namespace = ''default'', Name = ''test-nodeset''\<rparr>]
           = [] @ map (\<lambda>nodeset. \<lparr>Namespace = nsNamespace nodeset, Name = nsName nodeset\<rparr>)
                    enqueued
         \<and> (\<forall>nodeset \<in> set enqueued.
               runsUnlessUnschedulable (testNode ''1'' [(''Ready'', ''True'')] ''unschedulable'') nodeset
                 \<noteq> runsUnlessUnschedulable (testNode ''2'' [(''Ready'', ''True'')] []) nodeset))
   \<and> nodeEventHandler_Update sameTrueConditions runsUnlessUnschedulable testReader
      (NodeObject (testNode ''1'' [(''Ready'', ''True'')] []))
      (NodeObject (testNode ''2'' [(''Ready'', ''False'')] [])) []
     = Inr []"
proof -
  let ?old = "testNode ''1'' [(''Ready'', ''True'')] ''unschedulable''"
  let ?cur = "testNode ''2'' [(''Ready'', ''True'')] []"
  let ?q = "[\<lparr>Namespace = ''default'', Name = ''select-all''\<rparr>,
            \<lparr>Namespace = ''default'', Name = ''test-nodeset''\<rparr>]"
  have run: "nodeEventHandler_Update sameTrueConditions runsUnlessUnschedulable testReader
      (NodeObject ?old) (NodeObject ?cur) [] = Inr ?q"
    by (simp add: node_defs scenario_defs)
  have quiet: "nodeEventHandler_Update sameTrueConditions runsUnlessUnschedulable testReader
      (NodeObject (testNode ''1'' [(''Ready'', ''True'')] []))
      (NodeObject (testNode ''2'' [(''Ready'', ''False'')] [])) [] = Inr []"
    by (simp add: node_defs scenario_defs)
  from node_update_enqueues_on_transition_only [OF run]
  have "\<exists>enqueued.
         ?q = [] @ map (\<lambda>nodeset. \<lparr>Namespace = nsNamespace nodeset, Name = nsName nodeset\<rparr>)
                    enqueued
         \<and> (\<forall>nodeset \<in> set enqueued.
               runsUnlessUnschedulable ?old nodeset \<noteq> runsUnlessUnschedulable ?cur nodeset)"
    by blast
  with run quiet show ?thesis by blast
qed

subsection \<open>State updates of the fake Slurm client\<close>

lemma updateStates_fold:
  "updateStates S L = fold spec_transition L S"
  by (induction L arbitrary: S)
     (simp_all add: spec_transition_def V0041UpdateNodeMsgStateUNDRAIN_def V0041NodeStateDRAIN_def)

lemma updateStates_added:
  "x \<in> updateStates S L \<Longrightarrow> x \<notin> S \<Longrightarrow> x \<in> set L \<and> x \<noteq> ''UNDRAIN''"
  by (induction L arbitrary: S)
     (auto simp: V0041UpdateNodeMsgStateUNDRAIN_def split: if_splits)

lemma updateStates_removed:
  "x \<in> S \<Longrightarrow> x \<notin> updateStates S L \<Longrightarrow> x = ''DRAIN'' \<and> ''UNDRAIN'' \<in> set L"
proof (induction L arbitrary: S)
  case Nil
  then show ?case by simp
next
  case (Cons r L)
  show ?case
  proof (cases "r = ''UNDRAIN''")
    case True
    with Cons.prems have out: "x \<notin> updateStates (S - {''DRAIN''}) L"
      by (simp add: V0041UpdateNodeMsgStateUNDRAIN_def V0041NodeStateDRAIN_def)
    show ?thesis
    proof (cases "x = ''DRAIN''")
      case True
      with \<open>r = ''UNDRAIN''\<close> show ?thesis by simp
    next
      case False
      with Cons.prems have "x \<in> S - {''DRAIN''}" by simp
      from Cons.IH [OF this out] False show ?thesis by simp
    qed
  next
    case False
    with Cons.prems have out: "x \<notin> updateStates (insert r S) L"
      by (simp add: V0041UpdateNodeMsgStateUNDRAIN_def)
    from Cons.prems have "x \<in> insert r S" by simp
    from Cons.IH [OF this out] show ?thesis by simp
  qed
qed

text \<open>
  Claim C3. For a Slurm node and an update message, \<^verbatim>\<open>updateFn\<close> succeeds, and the state
  set of the updated node is the fold of the spec's transition over the requested states in
  order, started from the node's state set: \<^verbatim>\<open>UNDRAIN\<close> removes \<^verbatim>\<open>DRAIN\<close>, any other
  requested state is inserted. Nothing else changes: a state that is new was requested and is
  not \<^verbatim>\<open>UNDRAIN\<close>; a state that is gone is \<^verbatim>\<open>DRAIN\<close>, and \<^verbatim>\<open>UNDRAIN\<close> was
  requested. The order in which the set is listed back into the node is left to the library,
  which is assumed to list exactly the elements of a finite set.
\<close>

theorem updateFn_folds_requested_states:
  assumes "\<And>S. finite S \<Longrightarrow> set (UnsortedList S) = S"
  shows "\<exists>node'. updateFn UnsortedList (V0041NodeObject node) (UpdateNodeMsg r)
             = Inr (V0041NodeObject node')
           \<and> GetStateAsSet node' = spec_UpdateState (GetStateAsSet node) (Deref (msgState r))
           \<and> (\<forall>x. x \<in> GetStateAsSet node' \<and> x \<notin> GetStateAsSet node
                 \<longrightarrow> x \<in> set (Deref (msgState r)) \<and> x \<noteq> ''UNDRAIN'')
           \<and> (\<forall>x. x \<in> GetStateAsSet node \<and> x \<notin> GetStateAsSet node'
                 \<longrightarrow> x = ''DRAIN'' \<and> ''UNDRAIN'' \<in> set (Deref (msgState r)))"
proof -
  let ?S = "updateStates (GetStateAsSet node) (Deref (msgState r))"
  define node' where "node' = node\<lparr>slurmState := Some (UnsortedList ?S),
      slurmComment := msgComment r, slurmReason := msgReason r\<rparr>"
  have fin: "finite ?S"
    by (simp add: updateStates_fold GetStateAsSet_def spec_transition_def
          fold_invariant [where Q = "\<lambda>x. True" and P = finite])
  have run: "updateFn UnsortedList (V0041NodeObject node) (UpdateNodeMsg r)
      = Inr (V0041NodeObject node')"
    by (simp add: updateFn_def node'_def GetStateAsSet_def Let_def)
  have st: "GetStateAsSet node' = ?S"
    using assms [OF fin] by (simp add: node'_def GetStateAsSet_def Deref_def)
  have spec: "GetStateAsSet node' = spec_UpdateState (GetStateAsSet node) (Deref (msgState r))"
    by (simp add: st spec_UpdateState_def updateStates_fold)
  have added: "\<forall>x. x \<in> GetStateAsSet node' \<and> x \<notin> GetStateAsSet node
                 \<longrightarrow> x \<in> set (Deref (msgState r)) \<and> x \<noteq> ''UNDRAIN''"
    using updateStates_added unfolding st by blast
  have removed: "\<forall>x. x \<in> GetStateAsSet node \<and> x \<notin> GetStateAsSet node'
                 \<longrightarrow> x = ''DRAIN'' \<and> ''UNDRAIN'' \<in> set (Deref (msgState r))"
    using updateStates_removed unfolding st by blast
  from run spec added removed show ?thesis by blast
qed

text \<open>
  The idle node of the test, asked to drain, holds \<^verbatim>\<open>IDLE\<close> and \<^verbatim>\<open>DRAIN\<close>; the
  draining node, asked to undrain and resume, holds \<^verbatim>\<open>IDLE\<close> and \<^verbatim>\<open>RESUME\<close>.
\<close>

theorem updateFn_folds_requested_states_witness:
  "set (sortedList {''IDLE'', ''DRAIN''}) = {''IDLE'', ''DRAIN''}
   \<and> (\<exists>node'. updateFn sortedList (V0041NodeObject idleNode) (UpdateNodeMsg drainMsg)
                 = Inr (V0041NodeObject node')
         \<and> GetStateAsSet node' = {''IDLE'', ''DRAIN''})
   \<and> (\<exists>node'. updateFn sortedList (V0041NodeObject drainingNode) (UpdateNodeMsg undrainMsg)
                 = Inr (V0041NodeObject node')
         \<and> GetStateAsSet node' = {''IDLE'', ''RESUME''})"
proof -
  have l: "finite S \<Longrightarrow> set (sortedList S) = S" for S
    by (simp add: sortedList_def)
  have d: "spec_UpdateState (GetStateAsSet idleNode) (Deref (msgState drainMsg))
      = {''IDLE'', ''DRAIN''}"
    by (auto simp: spec_UpdateState_def spec_transition_def GetStateAsSet_def Deref_def
          idleNode_def drainMsg_def)
  have u: "spec_UpdateState (GetStateAsSet drainingNode) (Deref (msgState undrainMsg))
      = {''IDLE'', ''RESUME''}"
    by (auto simp: spec_UpdateState_def spec_transition_def GetStateAsSet_def Deref_def
          drainingNode_def undrainMsg_def)
  from updateFn_folds_requested_states [of sortedList idleNode drainMsg, OF l]
  have a: "\<exists>node'. updateFn sortedList (V0041NodeObject idleNode) (UpdateNodeMsg drainMsg)
                 = Inr (V0041NodeObject node')
         \<and> GetStateAsSet node' = {''IDLE'', ''DRAIN''}"
    unfolding d by blast
  from updateFn_folds_requested_states [of sortedList drainingNode undrainMsg, OF l]
  have b: "\<exists>node'. updateFn sortedList (V0041NodeObject drainingNode) (UpdateNodeMsg undrainMsg)
                 = Inr (V0041NodeObject node')
         \<and> GetStateAsSet node' = {''IDLE'', ''RESUME''}"
    unfolding u by blast
  have "set (sortedList {''IDLE'', ''DRAIN''}) = {''IDLE'', ''DRAIN''}"
    by (rule l) simp
  with a b show ?thesis by blast
qed

subsection \<open>The requeue delay of a reconcile\<close>

lemma Pop_twice: "fst (Pop (snd (Pop ds key)) key) = 0"
  by (simp add: Pop_def split: option.splits)

lemma Pop_clears: "snd (Pop ds key) key = None"
  by (simp add: Pop_def split: option.splits)

lemma Once_Do_store: "durationStore (Once_Do startBackoffGC p) = durationStore p"
  by (simp add: Once_Do_def startBackoffGC_def)

lemma Reconcile_unfold:
  "Reconcile Sync req p =
     ((\<lparr>Requeue = False,
        RequeueAfter = fst (Pop (snd (Sync req (durationStore p))) (Request_String req))\<rparr>,
       fst (Sync req (durationStore p))),
      (Once_Do startBackoffGC p)
        \<lparr>durationStore :=
           snd (Pop (snd (Pop (snd (Sync req (durationStore p))) (Request_String req)))
                  (Request_String req))\<rparr>)"
  by (simp add: Reconcile_def Once_Do_store Let_def split: prod.splits)

text \<open>
  Claim C5. For every request and every \<^verbatim>\<open>Sync\<close>, when \<^verbatim>\<open>Sync\<close> has returned,
  \<^verbatim>\<open>Reconcile\<close> returns a result whose \<^verbatim>\<open>RequeueAfter\<close> is the duration popped from
  the duration store, as \<^verbatim>\<open>Sync\<close> left it, under the request's key, together with the
  error of \<^verbatim>\<open>Sync\<close>. Afterwards the store has no entry under that key: one more pop
  gives the zero duration.
\<close>

theorem reconcile_returns_popped_duration:
  "RequeueAfter (fst (fst (Reconcile Sync req p)))
     = fst (Pop (snd (Sync req (durationStore p))) (Request_String req))
   \<and> snd (fst (Reconcile Sync req p)) = fst (Sync req (durationStore p))
   \<and> durationStore (snd (Reconcile Sync req p)) (Request_String req) = None
   \<and> fst (Pop (durationStore (snd (Reconcile Sync req p))) (Request_String req)) = 0"
  by (simp add: Reconcile_unfold Pop_twice Pop_clears)

text \<open>
  A \<^verbatim>\<open>Sync\<close> that pushes thirty seconds: the result asks for thirty seconds and the
  entry is gone.
\<close>

theorem reconcile_returns_popped_duration_witness:
  "RequeueAfter (fst (fst (Reconcile requeueingSync testRequest processStart))) = 30000000000
   \<and> snd (fst (Reconcile requeueingSync testRequest processStart)) = None
   \<and> fst (Pop (durationStore (snd (Reconcile requeueingSync testRequest processStart)))
             (Request_String testRequest)) = 0"
proof -
  have "fst (Pop (snd (requeueingSync testRequest (durationStore processStart)))
               (Request_String testRequest)) = 30000000000"
    by (simp add: Pop_def requeueingSync_def Second_def)
  moreover have "fst (requeueingSync testRequest (durationStore processStart)) = None"
    by (simp add: requeueingSync_def)
  ultimately show ?thesis
    using reconcile_returns_popped_duration [of requeueingSync testRequest processStart]
    by simp
qed

subsection \<open>The backoff of failed pods and its collector\<close>

lemma Reconcile_goroutines:
  "goroutines (snd (Reconcile Sync req p)) =
     goroutines p @ (if onceBackoffGC p then []
                     else [\<lparr>gcBackoff = failedPodsBackoff, gcPeriod = BackoffGCInterval\<rparr>])"
  by (simp add: Reconcile_unfold Once_Do_def startBackoffGC_def)

lemma Reconcile_once: "onceBackoffGC (snd (Reconcile Sync req p))"
  by (simp add: Reconcile_unfold Once_Do_def)

lemma reconcileAll_goroutines:
  "goroutines (reconcileAll Sync reqs p) =
     goroutines p @ (if onceBackoffGC p \<or> reqs = [] then []
                     else [\<lparr>gcBackoff = failedPodsBackoff, gcPeriod = BackoffGCInterval\<rparr>])"
proof (induction reqs arbitrary: p)
  case Nil
  show ?case by simp
next
  case (Cons req reqs)
  show ?case
    by (simp add: Cons.IH Reconcile_goroutines Reconcile_once)
qed

text \<open>
  Claim C6. The backoff registry of failed pods starts at one second and is capped at fifteen
  minutes. Over every sequence of \<^verbatim>\<open>Reconcile\<close> calls in a process that starts with the
  once-guard unused, at most one collector goroutine is started, and it collects this registry
  every minute. In general a sequence of calls starts the collector once if the guard was
  unused and there is a call, and never otherwise.
\<close>

theorem backoff_gc_started_at_most_once:
  "defaultDuration failedPodsBackoff = 1000000000
   \<and> maxDuration failedPodsBackoff = 15 * 60 * 1000000000
   \<and> length (goroutines (reconcileAll Sync reqs processStart)) \<le> 1
   \<and> (\<forall>g \<in> set (goroutines (reconcileAll Sync reqs processStart)).
         gcBackoff g = failedPodsBackoff \<and> gcPeriod g = 60 * 1000000000)
   \<and> goroutines (reconcileAll Sync reqs p) =
       goroutines p @ (if onceBackoffGC p \<or> reqs = [] then []
                       else [\<lparr>gcBackoff = failedPodsBackoff, gcPeriod = BackoffGCInterval\<rparr>])"
proof -
  have cfg: "defaultDuration failedPodsBackoff = 1000000000
      \<and> maxDuration failedPodsBackoff = 15 * 60 * 1000000000"
    by (simp add: failedPodsBackoff_def NewBackOff_def Second_def Minute_def)
  have period: "BackoffGCInterval = 60 * 1000000000"
    by (simp add: BackoffGCInterval_def Minute_def Second_def)
  have start: "goroutines (reconcileAll Sync reqs processStart) =
       (if reqs = [] then []
        else [\<lparr>gcBackoff = failedPodsBackoff, gcPeriod = BackoffGCInterval\<rparr>])"
    by (simp add: reconcileAll_goroutines processStart_def)
  have len: "length (goroutines (reconcileAll Sync reqs processStart)) \<le> 1"
    by (simp add: start)
  have each: "\<forall>g \<in> set (goroutines (reconcileAll Sync reqs processStart)).
         gcBackoff g = failedPodsBackoff \<and> gcPeriod g = 60 * 1000000000"
    by (simp add: start period)
  from cfg len each reconcileAll_goroutines [of Sync reqs p] show ?thesis by blast
qed

text \<open>Three reconciles in a fresh process start one collector.\<close>

theorem backoff_gc_started_at_most_once_witness:
  "goroutines (reconcileAll requeueingSync [testRequest, testRequest, testRequest] processStart)
     = [\<lparr>gcBackoff = \<lparr>defaultDuration = 1000000000, maxDuration = 900000000000\<rparr>,
         gcPeriod = 60000000000\<rparr>]
   \<and> length (goroutines
          (reconcileAll requeueingSync [testRequest, testRequest, testRequest] processStart)) = 1"
proof -
  note inst = backoff_gc_started_at_most_once
    [of requeueingSync "[testRequest, testRequest, testRequest]" processStart]
  have g: "goroutines (reconcileAll requeueingSync [testRequest, testRequest, testRequest]
        processStart)
     = [\<lparr>gcBackoff = \<lparr>defaultDuration = 1000000000, maxDuration = 900000000000\<rparr>,
         gcPeriod = 60000000000\<rparr>]"
    using inst
    by (simp add: processStart_def failedPodsBackoff_def NewBackOff_def BackoffGCInterval_def
          Minute_def Second_def)
  from g show ?thesis by simp
qed

subsection \<open>Slurm node events with an unreadable comment\<close>






subsection \<open>When a pod may be deleted\<close>












end
